theory Spec2Isabelle
  imports Main
begin

section \<open>JavaScript values used by the component\<close>

text \<open>
  The component is a React function component (\<open>CommandRunner\<close>). Its state lives in
  \<open>useState\<close> cells; the handlers registered on the socket and the two asynchronous
  operations \<open>deployRepo\<close> and \<open>stopProcess\<close> are modelled as functions from the state
  before to the state after, together with the list of HTTP requests they issue.

  Strings are lists of code units below 256. An optional field of an interface is an
  \<open>option\<close>; a conditional on a value follows JavaScript's truthiness: an absent or
  empty string is falsy, an absent or \<open>false\<close> boolean is falsy.
\<close>

definition truthy_string :: "string option \<Rightarrow> bool" where
  "truthy_string v = (case v of None \<Rightarrow> False | Some s \<Rightarrow> s \<noteq> [])"

definition truthy_boolean :: "bool option \<Rightarrow> bool" where
  "truthy_boolean v = (case v of None \<Rightarrow> False | Some b \<Rightarrow> b)"

text \<open>\<open>a || b\<close> on an optional string: the left operand when it is truthy.\<close>

definition or_else :: "string option \<Rightarrow> string \<Rightarrow> string" where
  "or_else v d = (case v of None \<Rightarrow> d | Some s \<Rightarrow> if s = [] then d else s)"

text \<open>
  The \<open>exitCode\<close> of a socket message is declared \<open>number | undefined\<close>, but it arrives
  as decoded JSON and the handler tests \<open>typeof data.exitCode === 'number'\<close>, so the
  model keeps the other JSON values apart. Exit codes are integers.
\<close>

datatype js_value =
    JSUndefined
  | JSNull
  | JSBoolean bool
  | JSNumber int
  | JSString string

fun typeof_number :: "js_value \<Rightarrow> bool" where
  "typeof_number (JSNumber n) = True"
| "typeof_number v = False"

text \<open>
  Decimal rendering of an integer, as a template literal renders a number of magnitude
  below \<open>10^21\<close> (from there on JavaScript prints an exponent); process exit codes are far
  below that.
\<close>

fun toString_nat :: "nat \<Rightarrow> string" where
  "toString_nat n =
     (if n < 10 then [char_of (48 + n)]
      else toString_nat (n div 10) @ [char_of (48 + n mod 10)])"

declare toString_nat.simps [simp del]

definition toString_int :: "int \<Rightarrow> string" where
  "toString_int i = (if i < 0 then ''-'' @ toString_nat (nat (- i)) else toString_nat (nat i))"

text \<open>
  \<open>String.prototype.trim\<close>: the white space and line terminator code units below 256
  are TAB, LF, VT, FF, CR, SPACE and NBSP.
\<close>

definition isWhiteSpace :: "char \<Rightarrow> bool" where
  "isWhiteSpace c =
     (let n = (of_char c :: nat)
      in n = 9 \<or> n = 10 \<or> n = 11 \<or> n = 12 \<or> n = 13 \<or> n = 32 \<or> n = 160)"

definition trim :: "string \<Rightarrow> string" where
  "trim s = rev (dropWhile isWhiteSpace (rev (dropWhile isWhiteSpace s)))"

section \<open>Data model\<close>

text \<open>
  \<open>OutputMessage\<close>, \<open>SocketMessage\<close> and \<open>ApiResponse\<close> of the component. The \<open>type\<close> of
  an output message is a string at run time: the handler stores
  \<open>(data.outputType as OutputMessage['type']) || 'stdout'\<close>, and the cast checks nothing.
\<close>

record OutputMessage =
  om_id :: nat
  om_text :: string
  om_type :: string
  om_isProgress :: "bool option"
  om_replaceLast :: "bool option"

record SocketMessage =
  sm_commandId :: string
  sm_output :: "string option"
  sm_outputType :: "string option"
  sm_exitCode :: js_value
  sm_isProgress :: "bool option"
  sm_replaceLast :: "bool option"

record ApiResponse =
  ar_success :: bool
  ar_commandId :: "string option"
  ar_error :: "string option"
  ar_repos :: "string list option"

text \<open>
  The state cells of the component. The message type is a parameter because the earlier
  revision of the component (\<open>src/App.tsx\<close>) has messages without the progress flags.
\<close>

record 'm state =
  gitUrl :: string
  branch :: string
  output_st :: "'m list"
  activeCommandId :: "string option"
  deployedRepos :: "string list"
  isLoading :: bool
  isConnected :: bool

text \<open>The HTTP requests the component issues, and how an awaited request settles.\<close>

datatype request =
    GetRepos
  | PostDeploy string string
  | PostStop string

text \<open>
  \<open>Rejected (Some m)\<close> is a thrown \<open>Error\<close> with message \<open>m\<close>, \<open>Rejected None\<close> a thrown
  value that is not an \<open>Error\<close> (the \<open>catch\<close> blocks tell them apart).
\<close>

datatype 'a settled = Resolved 'a | Rejected "string option"

section \<open>The output reconciler\<close>

text \<open>
  \<open>findLastIndex\<close>: the loop \<open>for (let i = array.length - 1; i >= 0; i--)\<close>, returning the
  first index, from the end, whose element satisfies the predicate, and \<open>-1\<close> otherwise.
\<close>

function findLastIndex_loop :: "'a list \<Rightarrow> ('a \<Rightarrow> bool) \<Rightarrow> int \<Rightarrow> int" where
  "findLastIndex_loop array predicate i =
     (if i \<ge> 0 then
        (if predicate (array ! nat i) then i
         else findLastIndex_loop array predicate (i - 1))
      else - 1)"
  by pat_completeness auto
termination
  by (relation "measure (\<lambda>(array, predicate, i). nat (i + 1))") auto

declare findLastIndex_loop.simps [simp del]

definition findLastIndex :: "'a list \<Rightarrow> ('a \<Rightarrow> bool) \<Rightarrow> int" where
  "findLastIndex array predicate = findLastIndex_loop array predicate (int (length array) - 1)"

text \<open>The entry built from a \<open>commandOutput\<close> message; \<open>now\<close> is the value of \<open>Date.now()\<close>.\<close>

definition outputMessage :: "nat \<Rightarrow> SocketMessage \<Rightarrow> OutputMessage" where
  "outputMessage now data =
     \<lparr> om_id = now,
       om_text = or_else (sm_output data) [],
       om_type = or_else (sm_outputType data) ''stdout'',
       om_isProgress = sm_isProgress data,
       om_replaceLast = sm_replaceLast data \<rparr>"

text \<open>The updater passed to \<open>setOutput\<close> by the \<open>commandOutput\<close> handler.\<close>

definition commandOutput_update :: "nat \<Rightarrow> SocketMessage \<Rightarrow> OutputMessage list \<Rightarrow> OutputMessage list" where
  "commandOutput_update now data prev =
     (let newOutput = prev;
          msg = outputMessage now data
      in if truthy_boolean (sm_isProgress data) \<and> truthy_boolean (sm_replaceLast data) then
           (let lastProgressIndex = findLastIndex newOutput (\<lambda>m. truthy_boolean (om_isProgress m))
            in if lastProgressIndex \<noteq> - 1 then newOutput[nat lastProgressIndex := msg]
               else newOutput @ [msg])
         else newOutput @ [msg])"

definition on_commandOutput :: "nat \<Rightarrow> SocketMessage \<Rightarrow> OutputMessage state \<Rightarrow> OutputMessage state" where
  "on_commandOutput now data st =
     (if truthy_string (sm_output data)
      then st\<lparr>output_st := commandOutput_update now data (output_st st)\<rparr>
      else st)"

text \<open>The summary entry of a \<open>commandFinished\<close> message with a numeric exit code.\<close>

definition finishedMessage :: "nat \<Rightarrow> int \<Rightarrow> OutputMessage" where
  "finishedMessage now code =
     \<lparr> om_id = now,
       om_text = ''Process finished with exit code: '' @ toString_int code,
       om_type = (if code = 0 then ''success'' else ''error''),
       om_isProgress = None,
       om_replaceLast = None \<rparr>"

text \<open>
  The \<open>commandFinished\<close> handler. It also calls \<open>fetchDeployedRepos()\<close>, which issues the
  request for the repository list.
\<close>

definition on_commandFinished ::
  "nat \<Rightarrow> SocketMessage \<Rightarrow> OutputMessage state \<Rightarrow> OutputMessage state \<times> request list" where
  "on_commandFinished now data st =
     (case sm_exitCode data of
        JSNumber code \<Rightarrow>
          (st\<lparr>output_st := output_st st @ [finishedMessage now code],
              activeCommandId := None,
              isLoading := False\<rparr>,
           [GetRepos])
      | _ \<Rightarrow> (st, []))"

section \<open>The deployment controller\<close>

text \<open>The error entry that \<open>deployRepo\<close> appends; it carries no progress flags.\<close>

definition errorMessage :: "nat \<Rightarrow> string \<Rightarrow> OutputMessage" where
  "errorMessage now reason =
     \<lparr> om_id = now,
       om_text = ''Error: '' @ reason,
       om_type = ''error'',
       om_isProgress = None,
       om_replaceLast = None \<rparr>"

text \<open>
  \<open>deployRepo\<close> up to its \<open>await\<close>: \<open>None\<close> is the early \<open>return\<close> on a blank URL, otherwise
  the state after \<open>setOutput([])\<close> and \<open>setIsLoading(true)\<close> and the request sent.
\<close>

definition deployRepo_request :: "OutputMessage state \<Rightarrow> (OutputMessage state \<times> request) option" where
  "deployRepo_request st =
     (if trim (gitUrl st) = [] then None
      else Some (st\<lparr>output_st := [], isLoading := True\<rparr>,
                 PostDeploy (trim (gitUrl st)) (trim (branch st))))"

text \<open>
  \<open>deployRepo\<close> after its \<open>await\<close>: the \<open>try\<close> body on a decoded response, the \<open>catch\<close>
  block on a rejected \<open>fetch\<close> or \<open>response.json()\<close>.
\<close>

definition deployRepo_settled ::
  "nat \<Rightarrow> ApiResponse settled \<Rightarrow> OutputMessage state \<Rightarrow> OutputMessage state" where
  "deployRepo_settled now res st =
     (case res of
        Resolved data \<Rightarrow>
          if ar_success data \<and> truthy_string (ar_commandId data)
          then st\<lparr>activeCommandId := ar_commandId data\<rparr>
          else st\<lparr>output_st := output_st st @ [errorMessage now (or_else (ar_error data) ''Unknown error'')],
                  isLoading := False\<rparr>
      | Rejected err \<Rightarrow>
          st\<lparr>output_st := output_st st @
                 [errorMessage now (case err of Some message \<Rightarrow> message | None \<Rightarrow> ''Unknown error'')],
             isLoading := False\<rparr>)"

text \<open>A whole call of \<open>deployRepo\<close>, with no other event delivered while it waits.\<close>

definition deployRepo ::
  "nat \<Rightarrow> ApiResponse settled \<Rightarrow> OutputMessage state \<Rightarrow> OutputMessage state \<times> request list" where
  "deployRepo now res st =
     (case deployRepo_request st of
        None \<Rightarrow> (st, [])
      | Some (st1, req) \<Rightarrow> (deployRepo_settled now res st1, [req]))"

text \<open>
  \<open>stopProcess\<close> returns the state, the requests sent and what it writes with
  \<open>console.error\<close>: the message of the error caught, or \<open>None\<close> for a thrown value that is
  not an \<open>Error\<close>. A response without \<open>success\<close> throws
  \<open>new Error(data.error || 'Failed to stop process')\<close> inside the \<open>try\<close>, and the \<open>catch\<close>
  block only writes to the console.
\<close>

definition stopProcess ::
  "ApiResponse settled \<Rightarrow> 'm state \<Rightarrow> 'm state \<times> request list \<times> string option list" where
  "stopProcess res st =
     (if \<not> truthy_string (activeCommandId st) then (st, [], [])
      else (st,
            [PostStop (or_else (activeCommandId st) [])],
            (case res of
               Resolved data \<Rightarrow>
                 if \<not> ar_success data
                 then [Some (or_else (ar_error data) ''Failed to stop process'')]
                 else []
             | Rejected err \<Rightarrow> [err])))"

text \<open>\<open>fetchDeployedRepos\<close> once its request has settled; an array is always truthy.\<close>

definition fetchDeployedRepos_settled :: "ApiResponse settled \<Rightarrow> 'm state \<Rightarrow> 'm state" where
  "fetchDeployedRepos_settled res st =
     (case res of
        Resolved data \<Rightarrow>
          (case ar_repos data of Some rs \<Rightarrow> st\<lparr>deployedRepos := rs\<rparr> | None \<Rightarrow> st)
      | Rejected err \<Rightarrow> st)"

text \<open>
  The button: \<open>disabled={isLoading && !activeCommandId}\<close> and
  \<open>onClick={activeCommandId ? stopProcess : deployRepo}\<close>. A click on a disabled button
  does nothing; otherwise \<open>onClick\<close> gives the state and the request sent when the chosen
  operation reaches its \<open>await\<close> (\<open>stopProcess\<close> calls no setter before it).
\<close>

definition button_disabled :: "'m state \<Rightarrow> bool" where
  "button_disabled st = (isLoading st \<and> \<not> truthy_string (activeCommandId st))"

definition onClick :: "OutputMessage state \<Rightarrow> OutputMessage state \<times> request list" where
  "onClick st =
     (if button_disabled st then (st, [])
      else if truthy_string (activeCommandId st)
      then (st, [PostStop (or_else (activeCommandId st) [])])
      else (case deployRepo_request st of
              None \<Rightarrow> (st, [])
            | Some (st1, req) \<Rightarrow> (st1, [req])))"

section \<open>Everything that writes a state cell\<close>

text \<open>
  One constructor for each place of the component that calls a state setter: the socket
  listeners, the two input fields, and the asynchronous operations before and after
  their \<open>await\<close>.
\<close>

datatype action =
    Connect
  | Disconnect
  | CommandOutput nat SocketMessage
  | CommandFinished nat SocketMessage
  | SetGitUrl string
  | SetBranch string
  | DeployRepoRequest
  | DeployRepoSettled nat "ApiResponse settled"
  | StopProcess "ApiResponse settled"
  | FetchDeployedReposSettled "ApiResponse settled"

fun step :: "action \<Rightarrow> OutputMessage state \<Rightarrow> OutputMessage state" where
  "step Connect st = st\<lparr>isConnected := True\<rparr>"
| "step Disconnect st = st\<lparr>isConnected := False\<rparr>"
| "step (CommandOutput now data) st = on_commandOutput now data st"
| "step (CommandFinished now data) st = fst (on_commandFinished now data st)"
| "step (SetGitUrl v) st = st\<lparr>gitUrl := v\<rparr>"
| "step (SetBranch v) st = st\<lparr>branch := v\<rparr>"
| "step DeployRepoRequest st = (case deployRepo_request st of None \<Rightarrow> st | Some (st1, req) \<Rightarrow> st1)"
| "step (DeployRepoSettled now res) st = deployRepo_settled now res st"
| "step (StopProcess res) st = fst (stopProcess res st)"
| "step (FetchDeployedReposSettled res) st = fetchDeployedRepos_settled res st"

section \<open>The earlier revision of the stream handlers\<close>

text \<open>
  \<open>src/App.tsx\<close> is the same component before progress lines were added: its messages have
  no flags, the kind arrives in the field \<open>type\<close>, and \<open>commandOutput\<close> always appends.
\<close>

record OutputMessage0 =
  om0_id :: nat
  om0_text :: string
  om0_type :: string

record SocketMessage0 =
  sm0_commandId :: string
  sm0_output :: "string option"
  sm0_type :: "string option"
  sm0_exitCode :: js_value

definition outputMessage0 :: "nat \<Rightarrow> SocketMessage0 \<Rightarrow> OutputMessage0" where
  "outputMessage0 now data =
     \<lparr> om0_id = now,
       om0_text = or_else (sm0_output data) [],
       om0_type = or_else (sm0_type data) ''stdout'' \<rparr>"

definition on_commandOutput0 :: "nat \<Rightarrow> SocketMessage0 \<Rightarrow> OutputMessage0 state \<Rightarrow> OutputMessage0 state" where
  "on_commandOutput0 now data st =
     (if truthy_string (sm0_output data)
      then st\<lparr>output_st := output_st st @ [outputMessage0 now data]\<rparr>
      else st)"

definition finishedMessage0 :: "nat \<Rightarrow> int \<Rightarrow> OutputMessage0" where
  "finishedMessage0 now code =
     \<lparr> om0_id = now,
       om0_text = ''Process finished with exit code: '' @ toString_int code,
       om0_type = (if code = 0 then ''success'' else ''error'') \<rparr>"

definition on_commandFinished0 ::
  "nat \<Rightarrow> SocketMessage0 \<Rightarrow> OutputMessage0 state \<Rightarrow> OutputMessage0 state \<times> request list" where
  "on_commandFinished0 now data st =
     (case sm0_exitCode data of
        JSNumber code \<Rightarrow>
          (st\<lparr>output_st := output_st st @ [finishedMessage0 now code],
              activeCommandId := None,
              isLoading := False\<rparr>,
           [GetRepos])
      | _ \<Rightarrow> (st, []))"

text \<open>Folding a stream of timed \<open>commandOutput\<close> messages into the state.\<close>

definition apply_outputs :: "(nat \<times> SocketMessage) list \<Rightarrow> OutputMessage state \<Rightarrow> OutputMessage state" where
  "apply_outputs evs st = foldl (\<lambda>s (now, data). on_commandOutput now data s) st evs"

definition apply_outputs0 :: "(nat \<times> SocketMessage0) list \<Rightarrow> OutputMessage0 state \<Rightarrow> OutputMessage0 state" where
  "apply_outputs0 evs st = foldl (\<lambda>s (now, data). on_commandOutput0 now data s) st evs"

section \<open>Properties of the reverse scan\<close>

lemma findLastIndex_loop_none:
  "\<forall>j. 0 \<le> j \<and> j \<le> i \<longrightarrow> \<not> p (xs ! nat j) \<Longrightarrow> findLastIndex_loop xs p i = - 1"
proof (induction xs p i rule: findLastIndex_loop.induct)
  case (1 array predicate i)
  show ?case
  proof (cases "i \<ge> 0")
    case True
    with "1.prems" have np: "\<not> predicate (array ! nat i)" by simp
    from "1.prems" have "\<forall>j. 0 \<le> j \<and> j \<le> i - 1 \<longrightarrow> \<not> predicate (array ! nat j)" by simp
    with "1.IH" True np have "findLastIndex_loop array predicate (i - 1) = - 1" by blast
    with True np show ?thesis by (subst findLastIndex_loop.simps) simp
  next
    case False
    then show ?thesis by (subst findLastIndex_loop.simps) simp
  qed
qed

lemma findLastIndex_loop_found:
  "0 \<le> k \<Longrightarrow> k \<le> i \<Longrightarrow> p (xs ! nat k) \<Longrightarrow>
   \<forall>j. k < j \<and> j \<le> i \<longrightarrow> \<not> p (xs ! nat j) \<Longrightarrow> findLastIndex_loop xs p i = k"
proof (induction xs p i rule: findLastIndex_loop.induct)
  case (1 array predicate i)
  from "1.prems" have i0: "i \<ge> 0" by simp
  show ?case
  proof (cases "k = i")
    case True
    with "1.prems" i0 show ?thesis by (subst findLastIndex_loop.simps) simp
  next
    case False
    with "1.prems" have lt: "k < i" by simp
    with "1.prems" have np: "\<not> predicate (array ! nat i)" by simp
    from "1.prems" lt have "\<forall>j. k < j \<and> j \<le> i - 1 \<longrightarrow> \<not> predicate (array ! nat j)" by simp
    with "1.IH" [OF i0 np] "1.prems" lt have "findLastIndex_loop array predicate (i - 1) = k" by simp
    with i0 np show ?thesis by (subst findLastIndex_loop.simps) simp
  qed
qed

lemma findLastIndex_loop_result:
  "findLastIndex_loop xs p i = - 1 \<or>
   (0 \<le> findLastIndex_loop xs p i \<and> findLastIndex_loop xs p i \<le> i \<and>
    p (xs ! nat (findLastIndex_loop xs p i)))"
proof (induction xs p i rule: findLastIndex_loop.induct)
  case (1 array predicate i)
  show ?case
  proof (cases "i \<ge> 0")
    case False
    then show ?thesis by (subst (1 2 3 4) findLastIndex_loop.simps) simp
  next
    case True
    show ?thesis
    proof (cases "predicate (array ! nat i)")
      case True
      with \<open>i \<ge> 0\<close> have "findLastIndex_loop array predicate i = i"
        by (subst findLastIndex_loop.simps) simp
      with True \<open>i \<ge> 0\<close> show ?thesis by simp
    next
      case False
      with \<open>i \<ge> 0\<close> have eq: "findLastIndex_loop array predicate i = findLastIndex_loop array predicate (i - 1)"
        by (subst findLastIndex_loop.simps) simp
      from "1.IH" [OF \<open>i \<ge> 0\<close> False] show ?thesis unfolding eq by auto
    qed
  qed
qed

lemma findLastIndex_none:
  assumes "\<forall>e \<in> set xs. \<not> p e"
  shows "findLastIndex xs p = - 1"
proof -
  have "\<forall>j. 0 \<le> j \<and> j \<le> int (length xs) - 1 \<longrightarrow> \<not> p (xs ! nat j)"
    using assms by auto
  then show ?thesis unfolding findLastIndex_def by (rule findLastIndex_loop_none)
qed

lemma findLastIndex_last:
  assumes "k < length xs" and "p (xs ! k)"
    and "\<forall>j. k < j \<and> j < length xs \<longrightarrow> \<not> p (xs ! j)"
  shows "findLastIndex xs p = int k"
proof -
  have "\<forall>j. int k < j \<and> j \<le> int (length xs) - 1 \<longrightarrow> \<not> p (xs ! nat j)"
  proof (intro allI impI)
    fix j assume "int k < j \<and> j \<le> int (length xs) - 1"
    then have "k < nat j \<and> nat j < length xs" by auto
    with assms(3) show "\<not> p (xs ! nat j)" by blast
  qed
  moreover have "p (xs ! nat (int k))" using assms(2) by simp
  moreover have "int k \<le> int (length xs) - 1" using assms(1) by simp
  ultimately show ?thesis
    unfolding findLastIndex_def by (intro findLastIndex_loop_found) simp_all
qed

lemma findLastIndex_result:
  "findLastIndex xs p = - 1 \<or>
   (0 \<le> findLastIndex xs p \<and> nat (findLastIndex xs p) < length xs \<and> p (xs ! nat (findLastIndex xs p)))"
  using findLastIndex_loop_result [of xs p "int (length xs) - 1"]
  unfolding findLastIndex_def by auto

section \<open>Properties of the \<open>commandOutput\<close> updater\<close>

lemma commandOutput_update_append:
  "\<not> (truthy_boolean (sm_isProgress d) \<and> truthy_boolean (sm_replaceLast d)) \<Longrightarrow>
   commandOutput_update now d prev = prev @ [outputMessage now d]"
  by (auto simp: commandOutput_update_def Let_def)

lemma commandOutput_update_no_progress:
  "\<forall>e \<in> set prev. \<not> truthy_boolean (om_isProgress e) \<Longrightarrow>
   commandOutput_update now d prev = prev @ [outputMessage now d]"
  by (simp add: commandOutput_update_def Let_def findLastIndex_none)

lemma commandOutput_update_replace:
  assumes "truthy_boolean (sm_isProgress d)" and "truthy_boolean (sm_replaceLast d)"
    and "k < length prev" and "truthy_boolean (om_isProgress (prev ! k))"
    and "\<forall>j. k < j \<and> j < length prev \<longrightarrow> \<not> truthy_boolean (om_isProgress (prev ! j))"
  shows "commandOutput_update now d prev = prev[k := outputMessage now d]"
proof -
  have "findLastIndex prev (\<lambda>m. truthy_boolean (om_isProgress m)) = int k"
    using assms(3-5) by (intro findLastIndex_last) simp_all
  then show ?thesis
    using assms(1,2) by (simp add: commandOutput_update_def Let_def)
qed

lemma commandOutput_update_keeps:
  assumes "i < length prev" and "\<not> truthy_boolean (om_isProgress (prev ! i))"
  shows "i < length (commandOutput_update now d prev) \<and> commandOutput_update now d prev ! i = prev ! i"
proof -
  let ?r = "findLastIndex prev (\<lambda>m. truthy_boolean (om_isProgress m))"
  from findLastIndex_result [of prev "\<lambda>m. truthy_boolean (om_isProgress m)"]
  have "?r = - 1 \<or> (0 \<le> ?r \<and> nat ?r < length prev \<and> truthy_boolean (om_isProgress (prev ! nat ?r)))" .
  then have ne: "?r \<noteq> - 1 \<Longrightarrow> nat ?r \<noteq> i" using assms(2) by auto
  show ?thesis
    using assms(1) ne by (auto simp: commandOutput_update_def Let_def nth_append)
qed

lemma truthy_boolean_Some_True: "truthy_boolean v \<longleftrightarrow> v = Some True"
  by (cases v) (auto simp: truthy_boolean_def)

section \<open>Properties of a stream of \<open>commandOutput\<close> messages\<close>

lemma apply_outputs_Cons:
  "apply_outputs ((now, d) # evs) st = apply_outputs evs (on_commandOutput now d st)"
  by (simp add: apply_outputs_def)

lemma apply_outputs0_Cons:
  "apply_outputs0 ((now, d) # evs) st = apply_outputs0 evs (on_commandOutput0 now d st)"
  by (simp add: apply_outputs0_def)

lemma apply_outputs_appends:
  "\<forall>(now, d) \<in> set evs. truthy_string (sm_output d) \<and>
       \<not> (truthy_boolean (sm_isProgress d) \<and> truthy_boolean (sm_replaceLast d)) \<Longrightarrow>
   output_st (apply_outputs evs st) = output_st st @ map (\<lambda>(now, d). outputMessage now d) evs"
proof (induction evs arbitrary: st)
  case Nil
  show ?case by (simp add: apply_outputs_def)
next
  case (Cons ev evs)
  obtain now d where ev: "ev = (now, d)" by (cases ev)
  from Cons.prems ev have txt_ok: "truthy_string (sm_output d)"
    and plain: "\<not> (truthy_boolean (sm_isProgress d) \<and> truthy_boolean (sm_replaceLast d))"
    by simp_all
  have one: "output_st (on_commandOutput now d st) = output_st st @ [outputMessage now d]"
    using txt_ok commandOutput_update_append [OF plain] by (simp add: on_commandOutput_def)
  from Cons.prems have "\<forall>(now, d) \<in> set evs. truthy_string (sm_output d) \<and>
       \<not> (truthy_boolean (sm_isProgress d) \<and> truthy_boolean (sm_replaceLast d))" by simp
  from Cons.IH [OF this]
  have "output_st (apply_outputs evs (on_commandOutput now d st)) =
        output_st (on_commandOutput now d st) @ map (\<lambda>(now, d). outputMessage now d) evs" .
  with one ev show ?case by (simp add: apply_outputs_Cons)
qed

lemma apply_outputs0_appends:
  "\<forall>(now, d) \<in> set evs. truthy_string (sm0_output d) \<Longrightarrow>
   output_st (apply_outputs0 evs st) = output_st st @ map (\<lambda>(now, d). outputMessage0 now d) evs"
proof (induction evs arbitrary: st)
  case Nil
  show ?case by (simp add: apply_outputs0_def)
next
  case (Cons ev evs)
  obtain now d where ev: "ev = (now, d)" by (cases ev)
  from Cons.prems ev have txt_ok: "truthy_string (sm0_output d)" by simp
  then have one: "output_st (on_commandOutput0 now d st) = output_st st @ [outputMessage0 now d]"
    by (simp add: on_commandOutput0_def)
  from Cons.prems have "\<forall>(now, d) \<in> set evs. truthy_string (sm0_output d)" by simp
  from Cons.IH [OF this]
  have "output_st (apply_outputs0 evs (on_commandOutput0 now d st)) =
        output_st (on_commandOutput0 now d st) @ map (\<lambda>(now, d). outputMessage0 now d) evs" .
  with one ev show ?case by (simp add: apply_outputs0_Cons)
qed

lemma on_commandOutput_keeps:
  assumes "i < length (output_st st)" and "\<not> truthy_boolean (om_isProgress (output_st st ! i))"
  shows "i < length (output_st (on_commandOutput now d st)) \<and>
         output_st (on_commandOutput now d st) ! i = output_st st ! i"
  using commandOutput_update_keeps [OF assms, of now d] assms(1)
  by (simp add: on_commandOutput_def)

lemma apply_outputs_keeps:
  "i < length (output_st st) \<Longrightarrow> \<not> truthy_boolean (om_isProgress (output_st st ! i)) \<Longrightarrow>
   i < length (output_st (apply_outputs evs st)) \<and>
   output_st (apply_outputs evs st) ! i = output_st st ! i"
proof (induction evs arbitrary: st)
  case Nil
  then show ?case by (simp add: apply_outputs_def)
next
  case (Cons ev evs)
  obtain now d where ev: "ev = (now, d)" by (cases ev)
  from on_commandOutput_keeps [OF Cons.prems, of now d]
  have len: "i < length (output_st (on_commandOutput now d st))"
    and same: "output_st (on_commandOutput now d st) ! i = output_st st ! i" by simp_all
  from Cons.prems(2) same
  have "\<not> truthy_boolean (om_isProgress (output_st (on_commandOutput now d st) ! i))" by simp
  from Cons.IH [OF len this] same ev show ?case by (simp add: apply_outputs_Cons)
qed

section \<open>Properties of the deployment controller\<close>

lemma trim_Nil_iff: "trim s = [] \<longleftrightarrow> (\<forall>c \<in> set s. isWhiteSpace c)"
proof
  assume "trim s = []"
  then have "dropWhile isWhiteSpace (rev (dropWhile isWhiteSpace s)) = []"
    by (simp add: trim_def)
  then have "\<forall>c \<in> set (dropWhile isWhiteSpace s). isWhiteSpace c"
    by (simp add: dropWhile_eq_Nil_conv)
  then have "dropWhile isWhiteSpace s = []"
    by (metis hd_dropWhile list.set_sel(1))
  then show "\<forall>c \<in> set s. isWhiteSpace c"
    by (simp add: dropWhile_eq_Nil_conv)
next
  assume "\<forall>c \<in> set s. isWhiteSpace c"
  then have "dropWhile isWhiteSpace s = []" by (simp add: dropWhile_eq_Nil_conv)
  then have "rev (dropWhile isWhiteSpace (rev (dropWhile isWhiteSpace s))) = rev (dropWhile isWhiteSpace (rev []))"
    by (rule arg_cong)
  then show "trim s = []" by (simp add: trim_def)
qed

lemma step_activeCommandId:
  "truthy_string (activeCommandId st) \<Longrightarrow> \<not> truthy_string (activeCommandId (step a st)) \<Longrightarrow>
   (case a of CommandFinished now d \<Rightarrow> typeof_number (sm_exitCode d) | _ \<Rightarrow> False)"
proof (cases a)
  case (CommandFinished now d)
  assume "truthy_string (activeCommandId st)" "\<not> truthy_string (activeCommandId (step a st))"
  with CommandFinished show ?thesis
    by (cases "sm_exitCode d") (simp_all add: on_commandFinished_def)
next
  case (DeployRepoSettled now res)
  assume "truthy_string (activeCommandId st)" "\<not> truthy_string (activeCommandId (step a st))"
  with DeployRepoSettled show ?thesis
    by (auto simp: deployRepo_settled_def split: settled.splits if_splits)
qed (auto simp: on_commandOutput_def deployRepo_request_def stopProcess_def
      fetchDeployedRepos_settled_def split: settled.splits option.splits if_splits)

text \<open>
  The scenario of three messages \<open>10%\<close>, \<open>55%\<close> (both progress lines that replace the
  last one) and \<open>done\<close>: the log ends with the two entries \<open>55%\<close> and \<open>done\<close>.
\<close>

lemma scenario_progress_then_done:
  "map om_text (output_st (apply_outputs
      [(1, \<lparr>sm_commandId = ''cmd-1'', sm_output = Some ''10%'', sm_outputType = None,
        sm_exitCode = JSUndefined, sm_isProgress = Some True, sm_replaceLast = Some True\<rparr>),
       (2, \<lparr>sm_commandId = ''cmd-1'', sm_output = Some ''55%'', sm_outputType = None,
        sm_exitCode = JSUndefined, sm_isProgress = Some True, sm_replaceLast = Some True\<rparr>),
       (3, \<lparr>sm_commandId = ''cmd-1'', sm_output = Some ''done'', sm_outputType = None,
        sm_exitCode = JSUndefined, sm_isProgress = Some False, sm_replaceLast = None\<rparr>)]
      \<lparr>gitUrl = ''https://example.org/app.git'', branch = ''main'', output_st = [],
        activeCommandId = Some ''cmd-1'', deployedRepos = [], isLoading = True, isConnected = True\<rparr>)) = [''55%'', ''done'']"
  by (simp add: apply_outputs_def on_commandOutput_def truthy_string_def truthy_boolean_def
      commandOutput_update_def findLastIndex_def findLastIndex_loop.simps outputMessage_def
      or_else_def)

section \<open>Claims\<close>

text \<open>
  Claim C1. A \<open>commandOutput\<close> message with non-empty text and both \<open>isProgress\<close> and
  \<open>replaceLast\<close> set: when \<open>k\<close> is the index of the last entry of the log whose
  \<open>isProgress\<close> is true, the new log has the same length, entry \<open>k\<close> has the text of the
  message and its kind (\<open>outputType\<close>, or \<open>stdout\<close> when that field is absent or empty), and
  every other position is as before; when no entry has \<open>isProgress\<close> true, the entry
  built from the message is appended at the end.
\<close>

theorem progress_replace_last:
  assumes "sm_output d = Some t" and "t \<noteq> []"
    and "sm_isProgress d = Some True" and "sm_replaceLast d = Some True"
  shows "(k < length (output_st st) \<and> om_isProgress (output_st st ! k) = Some True \<and>
          (\<forall>j. k < j \<and> j < length (output_st st) \<longrightarrow> om_isProgress (output_st st ! j) \<noteq> Some True)
          \<longrightarrow> length (output_st (on_commandOutput now d st)) = length (output_st st) \<and>
              om_text (output_st (on_commandOutput now d st) ! k) = t \<and>
              om_type (output_st (on_commandOutput now d st) ! k) = or_else (sm_outputType d) ''stdout'' \<and>
              (\<forall>j < length (output_st st). j \<noteq> k \<longrightarrow>
                 output_st (on_commandOutput now d st) ! j = output_st st ! j)) \<and>
         ((\<forall>e \<in> set (output_st st). om_isProgress e \<noteq> Some True)
          \<longrightarrow> output_st (on_commandOutput now d st) = output_st st @ [outputMessage now d] \<and>
              om_text (outputMessage now d) = t \<and>
              om_type (outputMessage now d) = or_else (sm_outputType d) ''stdout'')"
proof -
  have log_eq: "output_st (on_commandOutput now d st) = commandOutput_update now d (output_st st)"
    using assms(1,2) by (simp add: on_commandOutput_def truthy_string_def)
  have text_eq: "om_text (outputMessage now d) = t"
    using assms(1,2) by (simp add: outputMessage_def or_else_def)
  have type_eq: "om_type (outputMessage now d) = or_else (sm_outputType d) ''stdout''"
    by (simp add: outputMessage_def)
  have flags: "truthy_boolean (sm_isProgress d)" "truthy_boolean (sm_replaceLast d)"
    using assms(3,4) by (simp_all add: truthy_boolean_def)
  have replace: "commandOutput_update now d (output_st st) = (output_st st)[k := outputMessage now d]"
    if "k < length (output_st st)" "om_isProgress (output_st st ! k) = Some True"
       "\<forall>j. k < j \<and> j < length (output_st st) \<longrightarrow> om_isProgress (output_st st ! j) \<noteq> Some True"
    using that flags by (intro commandOutput_update_replace) (simp_all add: truthy_boolean_Some_True)
  have append: "commandOutput_update now d (output_st st) = output_st st @ [outputMessage now d]"
    if "\<forall>e \<in> set (output_st st). om_isProgress e \<noteq> Some True"
    using that by (intro commandOutput_update_no_progress) (simp add: truthy_boolean_Some_True)
  show ?thesis
    using replace append by (simp add: log_eq text_eq type_eq)
qed

theorem progress_replace_last_witness:
  "length (output_st (on_commandOutput 3
      \<lparr>sm_commandId = ''c1'', sm_output = Some ''55%'', sm_outputType = None, sm_exitCode = JSUndefined,
        sm_isProgress = Some True, sm_replaceLast = Some True\<rparr>
      \<lparr>gitUrl = ''u'', branch = ''main'',
        output_st = [\<lparr>om_id = 1, om_text = ''10%'', om_type = ''stdout'', om_isProgress = Some True, om_replaceLast = Some True\<rparr>,
                     \<lparr>om_id = 2, om_text = ''cloned'', om_type = ''stderr'', om_isProgress = None, om_replaceLast = None\<rparr>],
        activeCommandId = Some ''c1'', deployedRepos = [], isLoading = True, isConnected = True\<rparr>)) = 2 \<and>
   om_text (output_st (on_commandOutput 3
      \<lparr>sm_commandId = ''c1'', sm_output = Some ''55%'', sm_outputType = None, sm_exitCode = JSUndefined,
        sm_isProgress = Some True, sm_replaceLast = Some True\<rparr>
      \<lparr>gitUrl = ''u'', branch = ''main'',
        output_st = [\<lparr>om_id = 1, om_text = ''10%'', om_type = ''stdout'', om_isProgress = Some True, om_replaceLast = Some True\<rparr>,
                     \<lparr>om_id = 2, om_text = ''cloned'', om_type = ''stderr'', om_isProgress = None, om_replaceLast = None\<rparr>],
        activeCommandId = Some ''c1'', deployedRepos = [], isLoading = True, isConnected = True\<rparr>) ! 0) = ''55%'' \<and>
   output_st (on_commandOutput 3
      \<lparr>sm_commandId = ''c1'', sm_output = Some ''55%'', sm_outputType = None, sm_exitCode = JSUndefined,
        sm_isProgress = Some True, sm_replaceLast = Some True\<rparr>
      \<lparr>gitUrl = ''u'', branch = ''main'',
        output_st = [\<lparr>om_id = 2, om_text = ''cloned'', om_type = ''stderr'', om_isProgress = None, om_replaceLast = None\<rparr>],
        activeCommandId = Some ''c1'', deployedRepos = [], isLoading = True, isConnected = True\<rparr>) =
     [\<lparr>om_id = 2, om_text = ''cloned'', om_type = ''stderr'', om_isProgress = None, om_replaceLast = None\<rparr>,
      \<lparr>om_id = 3, om_text = ''55%'', om_type = ''stdout'', om_isProgress = Some True, om_replaceLast = Some True\<rparr>]"
  using progress_replace_last [of
      "\<lparr>sm_commandId = ''c1'', sm_output = Some ''55%'', sm_outputType = None, sm_exitCode = JSUndefined,
        sm_isProgress = Some True, sm_replaceLast = Some True\<rparr>" "''55%''" 0
      "\<lparr>gitUrl = ''u'', branch = ''main'',
        output_st = [\<lparr>om_id = 1, om_text = ''10%'', om_type = ''stdout'', om_isProgress = Some True, om_replaceLast = Some True\<rparr>,
                     \<lparr>om_id = 2, om_text = ''cloned'', om_type = ''stderr'', om_isProgress = None, om_replaceLast = None\<rparr>],
        activeCommandId = Some ''c1'', deployedRepos = [], isLoading = True, isConnected = True\<rparr>" 3]
    progress_replace_last [of
      "\<lparr>sm_commandId = ''c1'', sm_output = Some ''55%'', sm_outputType = None, sm_exitCode = JSUndefined,
        sm_isProgress = Some True, sm_replaceLast = Some True\<rparr>" "''55%''" 0
      "\<lparr>gitUrl = ''u'', branch = ''main'',
        output_st = [\<lparr>om_id = 2, om_text = ''cloned'', om_type = ''stderr'', om_isProgress = None, om_replaceLast = None\<rparr>],
        activeCommandId = Some ''c1'', deployedRepos = [], isLoading = True, isConnected = True\<rparr>" 3]
  by (simp add: outputMessage_def or_else_def)

text \<open>
  Claim C2, as amended. For every sequence of \<open>commandOutput\<close> messages that all carry
  non-empty text and none of which has both \<open>isProgress\<close> and \<open>replaceLast\<close> set, folding
  the messages into any log appends exactly one entry per message, in arrival order.
  In the earlier revision, which has no progress flags, non-empty text is the only
  condition.
\<close>

theorem plain_outputs_append_in_order:
  "((\<forall>(now, d) \<in> set evs. truthy_string (sm_output d) \<and>
        \<not> (truthy_boolean (sm_isProgress d) \<and> truthy_boolean (sm_replaceLast d)))
    \<longrightarrow> output_st (apply_outputs evs st) = output_st st @ map (\<lambda>(now, d). outputMessage now d) evs \<and>
        length (output_st (apply_outputs evs st)) = length (output_st st) + length evs) \<and>
   ((\<forall>(now, d) \<in> set evs0. truthy_string (sm0_output d))
    \<longrightarrow> output_st (apply_outputs0 evs0 st0) = output_st st0 @ map (\<lambda>(now, d). outputMessage0 now d) evs0 \<and>
        length (output_st (apply_outputs0 evs0 st0)) = length (output_st st0) + length evs0)"
  using apply_outputs_appends [of evs st] apply_outputs0_appends [of evs0 st0] by simp

theorem plain_outputs_append_in_order_witness:
  "output_st (apply_outputs
      [(2, \<lparr>sm_commandId = ''cmd-1'', sm_output = Some ''cloning'', sm_outputType = Some ''system'',
        sm_exitCode = JSUndefined, sm_isProgress = None, sm_replaceLast = None\<rparr>),
       (3, \<lparr>sm_commandId = ''cmd-1'', sm_output = Some ''10%'', sm_outputType = None,
        sm_exitCode = JSUndefined, sm_isProgress = Some True, sm_replaceLast = None\<rparr>)]
      \<lparr>gitUrl = ''https://example.org/app.git'', branch = ''main'', output_st = [\<lparr>om_id = 1, om_text = ''start'', om_type = ''stdout'', om_isProgress = None, om_replaceLast = None\<rparr>],
        activeCommandId = Some ''cmd-1'', deployedRepos = [], isLoading = True, isConnected = True\<rparr>) =
     [\<lparr>om_id = 1, om_text = ''start'', om_type = ''stdout'', om_isProgress = None, om_replaceLast = None\<rparr>,
      \<lparr>om_id = 2, om_text = ''cloning'', om_type = ''system'', om_isProgress = None, om_replaceLast = None\<rparr>,
      \<lparr>om_id = 3, om_text = ''10%'', om_type = ''stdout'', om_isProgress = Some True, om_replaceLast = None\<rparr>] \<and>
   output_st (apply_outputs0
      [(2, \<lparr>sm0_commandId = ''cmd-1'', sm0_output = Some ''cloning'', sm0_type = Some ''stderr'', sm0_exitCode = JSUndefined\<rparr>)]
      \<lparr>gitUrl = ''https://example.org/app.git'', branch = ''main'', output_st = ([] :: OutputMessage0 list),
        activeCommandId = Some ''cmd-1'', deployedRepos = [], isLoading = True, isConnected = True\<rparr>) =
     [\<lparr>om0_id = 2, om0_text = ''cloning'', om0_type = ''stderr''\<rparr>]"
  using plain_outputs_append_in_order [of
      "[(2, \<lparr>sm_commandId = ''cmd-1'', sm_output = Some ''cloning'', sm_outputType = Some ''system'',
        sm_exitCode = JSUndefined, sm_isProgress = None, sm_replaceLast = None\<rparr>),
       (3, \<lparr>sm_commandId = ''cmd-1'', sm_output = Some ''10%'', sm_outputType = None,
        sm_exitCode = JSUndefined, sm_isProgress = Some True, sm_replaceLast = None\<rparr>)]"
      "\<lparr>gitUrl = ''https://example.org/app.git'', branch = ''main'', output_st = [\<lparr>om_id = 1, om_text = ''start'', om_type = ''stdout'', om_isProgress = None, om_replaceLast = None\<rparr>],
        activeCommandId = Some ''cmd-1'', deployedRepos = [], isLoading = True, isConnected = True\<rparr>"
      "[(2, \<lparr>sm0_commandId = ''cmd-1'', sm0_output = Some ''cloning'', sm0_type = Some ''stderr'', sm0_exitCode = JSUndefined\<rparr>)]"
      "\<lparr>gitUrl = ''https://example.org/app.git'', branch = ''main'', output_st = ([] :: OutputMessage0 list),
        activeCommandId = Some ''cmd-1'', deployedRepos = [], isLoading = True, isConnected = True\<rparr>"]
  by (simp add: outputMessage_def outputMessage0_def or_else_def truthy_string_def truthy_boolean_def)

text \<open>
  The claim without the condition on the text fails: a message with empty text and no
  flag set is one message of the sequence, and the log does not grow.
\<close>

theorem plain_outputs_counterexample:
  "\<not> (truthy_boolean (sm_isProgress
      \<lparr>sm_commandId = ''cmd-1'', sm_output = Some [], sm_outputType = None,
        sm_exitCode = JSUndefined, sm_isProgress = None, sm_replaceLast = None\<rparr>) \<and>
      truthy_boolean (sm_replaceLast
      \<lparr>sm_commandId = ''cmd-1'', sm_output = Some [], sm_outputType = None,
        sm_exitCode = JSUndefined, sm_isProgress = None, sm_replaceLast = None\<rparr>)) \<and>
   output_st (apply_outputs
      [(2, \<lparr>sm_commandId = ''cmd-1'', sm_output = Some [], sm_outputType = None,
        sm_exitCode = JSUndefined, sm_isProgress = None, sm_replaceLast = None\<rparr>)]
      \<lparr>gitUrl = ''https://example.org/app.git'', branch = ''main'', output_st = [],
        activeCommandId = Some ''cmd-1'', deployedRepos = [], isLoading = True, isConnected = True\<rparr>) = []"
  by (simp add: apply_outputs_def on_commandOutput_def truthy_string_def truthy_boolean_def)

text \<open>
  Claim C3. A \<open>commandFinished\<close> message with a numeric exit code appends exactly one
  entry, the summary, whose kind is \<open>success\<close> when the code is zero and \<open>error\<close> when it
  is not, and the active command identifier is absent afterwards.
\<close>

theorem finished_appends_summary:
  "sm_exitCode d = JSNumber code \<Longrightarrow>
   output_st (fst (on_commandFinished now d st)) = output_st st @ [finishedMessage now code] \<and>
   (code = 0 \<longrightarrow> om_type (finishedMessage now code) = ''success'') \<and>
   (code \<noteq> 0 \<longrightarrow> om_type (finishedMessage now code) = ''error'') \<and>
   activeCommandId (fst (on_commandFinished now d st)) = None"
  by (simp add: on_commandFinished_def finishedMessage_def)

theorem finished_appends_summary_witness:
  "output_st (fst (on_commandFinished 5
      \<lparr>sm_commandId = ''cmd-1'', sm_output = None, sm_outputType = None,
        sm_exitCode = JSNumber 0, sm_isProgress = None, sm_replaceLast = None\<rparr>
      \<lparr>gitUrl = ''https://example.org/app.git'', branch = ''main'', output_st = [\<lparr>om_id = 1, om_text = ''built'', om_type = ''stdout'', om_isProgress = None, om_replaceLast = None\<rparr>],
        activeCommandId = Some ''cmd-1'', deployedRepos = [], isLoading = True, isConnected = True\<rparr>)) =
     [\<lparr>om_id = 1, om_text = ''built'', om_type = ''stdout'', om_isProgress = None, om_replaceLast = None\<rparr>,
      \<lparr>om_id = 5, om_text = ''Process finished with exit code: 0'', om_type = ''success'', om_isProgress = None, om_replaceLast = None\<rparr>] \<and>
   activeCommandId (fst (on_commandFinished 5
      \<lparr>sm_commandId = ''cmd-1'', sm_output = None, sm_outputType = None,
        sm_exitCode = JSNumber 0, sm_isProgress = None, sm_replaceLast = None\<rparr>
      \<lparr>gitUrl = ''https://example.org/app.git'', branch = ''main'', output_st = [\<lparr>om_id = 1, om_text = ''built'', om_type = ''stdout'', om_isProgress = None, om_replaceLast = None\<rparr>],
        activeCommandId = Some ''cmd-1'', deployedRepos = [], isLoading = True, isConnected = True\<rparr>)) = None \<and>
   output_st (fst (on_commandFinished 5
      \<lparr>sm_commandId = ''cmd-1'', sm_output = None, sm_outputType = None,
        sm_exitCode = JSNumber 137, sm_isProgress = None, sm_replaceLast = None\<rparr>
      \<lparr>gitUrl = ''https://example.org/app.git'', branch = ''main'', output_st = [\<lparr>om_id = 1, om_text = ''built'', om_type = ''stdout'', om_isProgress = None, om_replaceLast = None\<rparr>],
        activeCommandId = Some ''cmd-1'', deployedRepos = [], isLoading = True, isConnected = True\<rparr>)) =
     [\<lparr>om_id = 1, om_text = ''built'', om_type = ''stdout'', om_isProgress = None, om_replaceLast = None\<rparr>,
      \<lparr>om_id = 5, om_text = ''Process finished with exit code: 137'', om_type = ''error'', om_isProgress = None, om_replaceLast = None\<rparr>]"
proof -
  have zero: "toString_int 0 = ''0''" and other: "toString_int 137 = ''137''"
    by code_simp+
  show ?thesis
    using
      finished_appends_summary [of
        "\<lparr>sm_commandId = ''cmd-1'', sm_output = None, sm_outputType = None,
        sm_exitCode = JSNumber 0, sm_isProgress = None, sm_replaceLast = None\<rparr>" 0 5
        "\<lparr>gitUrl = ''https://example.org/app.git'', branch = ''main'', output_st = [\<lparr>om_id = 1, om_text = ''built'', om_type = ''stdout'', om_isProgress = None, om_replaceLast = None\<rparr>],
        activeCommandId = Some ''cmd-1'', deployedRepos = [], isLoading = True, isConnected = True\<rparr>"]
      finished_appends_summary [of
        "\<lparr>sm_commandId = ''cmd-1'', sm_output = None, sm_outputType = None,
        sm_exitCode = JSNumber 137, sm_isProgress = None, sm_replaceLast = None\<rparr>" 137 5
        "\<lparr>gitUrl = ''https://example.org/app.git'', branch = ''main'', output_st = [\<lparr>om_id = 1, om_text = ''built'', om_type = ''stdout'', om_isProgress = None, om_replaceLast = None\<rparr>],
        activeCommandId = Some ''cmd-1'', deployedRepos = [], isLoading = True, isConnected = True\<rparr>"]
    by (simp add: finishedMessage_def zero other)
qed

text \<open>
  Claim C4, as amended. For every call of \<open>deployRepo\<close> with a URL that is not blank, the
  log is cleared and the loading flag set before the request is sent, whatever the
  outcome. When the response reports success and carries a non-empty command
  identifier, that identifier is recorded as the active command and the log is not
  touched again. When the request fails (a rejected request, or a response without
  success or without an identifier), exactly one entry, of kind \<open>error\<close>, is appended to
  the log as it stands when the request settles, the loading flag is reset and the
  active command identifier is not written: none is recorded afterwards if none was
  recorded when the request settled. Here \<open>st\<close> is the state at the call and \<open>s\<close> the
  state at settlement, which holds whatever the stream handlers did in between; in a
  call with nothing delivered in between \<open>s\<close> is the cleared state. The button starts a
  deploy only when it is enabled and no command is active; with an active command it
  runs \<open>stopProcess\<close>.
\<close>

theorem deployRepo_outcome:
  assumes "\<exists>c \<in> set (gitUrl st). \<not> isWhiteSpace c"
  shows "deployRepo_request st =
           Some (st\<lparr>output_st := [], isLoading := True\<rparr>,
                 PostDeploy (trim (gitUrl st)) (trim (branch st))) \<and>
         (ar_success data \<and> truthy_string (ar_commandId data) \<longrightarrow>
            deployRepo_settled now (Resolved data) s = s\<lparr>activeCommandId := ar_commandId data\<rparr>) \<and>
         (\<not> (ar_success data \<and> truthy_string (ar_commandId data)) \<longrightarrow>
            deployRepo_settled now (Resolved data) s =
              s\<lparr>output_st := output_st s @ [errorMessage now (or_else (ar_error data) ''Unknown error'')],
                isLoading := False\<rparr>) \<and>
         deployRepo_settled now (Rejected err) s =
           s\<lparr>output_st := output_st s @
                  [errorMessage now (case err of Some message \<Rightarrow> message | None \<Rightarrow> ''Unknown error'')],
             isLoading := False\<rparr> \<and>
         om_type (errorMessage now reason) = ''error'' \<and>
         (\<not> truthy_string (activeCommandId s) \<longrightarrow>
            \<not> truthy_string (activeCommandId (deployRepo_settled now (Rejected err) s)) \<and>
            (\<not> (ar_success data \<and> truthy_string (ar_commandId data)) \<longrightarrow>
               \<not> truthy_string (activeCommandId (deployRepo_settled now (Resolved data) s)))) \<and>
         deployRepo now res st =
           (deployRepo_settled now res (st\<lparr>output_st := [], isLoading := True\<rparr>),
            [PostDeploy (trim (gitUrl st)) (trim (branch st))]) \<and>
         (button_disabled st \<longrightarrow> onClick st = (st, [])) \<and>
         (truthy_string (activeCommandId st) \<longrightarrow>
            onClick st = (fst (stopProcess res st), fst (snd (stopProcess res st)))) \<and>
         (\<not> button_disabled st \<and> \<not> truthy_string (activeCommandId st) \<longrightarrow>
            onClick st =
              (st\<lparr>output_st := [], isLoading := True\<rparr>,
               [PostDeploy (trim (gitUrl st)) (trim (branch st))]))"
proof -
  from assms have url: "trim (gitUrl st) \<noteq> []" by (simp add: trim_Nil_iff)
  then have request: "deployRepo_request st =
      Some (st\<lparr>output_st := [], isLoading := True\<rparr>,
            PostDeploy (trim (gitUrl st)) (trim (branch st)))"
    by (simp add: deployRepo_request_def)
  have settled_ok: "deployRepo_settled now (Resolved data) s = s\<lparr>activeCommandId := ar_commandId data\<rparr>"
    if "ar_success data \<and> truthy_string (ar_commandId data)"
    using that by (simp add: deployRepo_settled_def)
  have settled_bad: "deployRepo_settled now (Resolved data) s =
      s\<lparr>output_st := output_st s @ [errorMessage now (or_else (ar_error data) ''Unknown error'')],
        isLoading := False\<rparr>"
    if "\<not> (ar_success data \<and> truthy_string (ar_commandId data))"
    using that by (auto simp: deployRepo_settled_def)
  have settled_rejected: "deployRepo_settled now (Rejected err) s =
      s\<lparr>output_st := output_st s @
             [errorMessage now (case err of Some message \<Rightarrow> message | None \<Rightarrow> ''Unknown error'')],
        isLoading := False\<rparr>"
    by (simp add: deployRepo_settled_def)
  have kind: "om_type (errorMessage now reason) = ''error''"
    by (simp add: errorMessage_def)
  have whole: "deployRepo now res st =
      (deployRepo_settled now res (st\<lparr>output_st := [], isLoading := True\<rparr>),
       [PostDeploy (trim (gitUrl st)) (trim (branch st))])"
    by (simp add: deployRepo_def request)
  have disabled: "onClick st = (st, [])" if "button_disabled st"
    using that by (simp add: onClick_def)
  have stop: "onClick st = (fst (stopProcess res st), fst (snd (stopProcess res st)))"
    if "truthy_string (activeCommandId st)"
    using that by (simp add: onClick_def button_disabled_def stopProcess_def)
  have start: "onClick st =
      (st\<lparr>output_st := [], isLoading := True\<rparr>,
       [PostDeploy (trim (gitUrl st)) (trim (branch st))])"
    if "\<not> button_disabled st \<and> \<not> truthy_string (activeCommandId st)"
    using that by (simp add: onClick_def request)
  show ?thesis
    using request settled_ok settled_bad settled_rejected kind whole disabled stop start
    by simp
qed

theorem deployRepo_outcome_witness:
  "onClick
      \<lparr>gitUrl = ''https://example.org/app.git '', branch = ''main'', output_st = [\<lparr>om_id = 1, om_text = ''Process finished with exit code: 0'', om_type = ''success'', om_isProgress = None, om_replaceLast = None\<rparr>],
        activeCommandId = None, deployedRepos = [], isLoading = False, isConnected = True\<rparr> =
     (\<lparr>gitUrl = ''https://example.org/app.git '', branch = ''main'', output_st = [],
        activeCommandId = None, deployedRepos = [], isLoading = True, isConnected = True\<rparr>,
      [PostDeploy ''https://example.org/app.git'' ''main'']) \<and>
   deployRepo_settled 9 (Resolved \<lparr>ar_success = True, ar_commandId = Some ''cmd-1'', ar_error = None, ar_repos = None\<rparr>)
      \<lparr>gitUrl = ''https://example.org/app.git '', branch = ''main'', output_st = [\<lparr>om_id = 7, om_text = ''Cloning...'', om_type = ''stdout'', om_isProgress = None, om_replaceLast = None\<rparr>],
        activeCommandId = None, deployedRepos = [], isLoading = True, isConnected = True\<rparr> =
     \<lparr>gitUrl = ''https://example.org/app.git '', branch = ''main'', output_st = [\<lparr>om_id = 7, om_text = ''Cloning...'', om_type = ''stdout'', om_isProgress = None, om_replaceLast = None\<rparr>],
        activeCommandId = Some ''cmd-1'', deployedRepos = [], isLoading = True, isConnected = True\<rparr> \<and>
   output_st (deployRepo_settled 9 (Resolved \<lparr>ar_success = False, ar_commandId = None, ar_error = Some ''clone failed'', ar_repos = None\<rparr>)
      \<lparr>gitUrl = ''https://example.org/app.git '', branch = ''main'', output_st = [\<lparr>om_id = 7, om_text = ''Cloning...'', om_type = ''stdout'', om_isProgress = None, om_replaceLast = None\<rparr>],
        activeCommandId = None, deployedRepos = [], isLoading = True, isConnected = True\<rparr>) =
     [\<lparr>om_id = 7, om_text = ''Cloning...'', om_type = ''stdout'', om_isProgress = None, om_replaceLast = None\<rparr>,
      \<lparr>om_id = 9, om_text = ''Error: clone failed'', om_type = ''error'', om_isProgress = None, om_replaceLast = None\<rparr>] \<and>
   output_st (deployRepo_settled 9 (Rejected (Some ''Failed to fetch''))
      \<lparr>gitUrl = ''https://example.org/app.git '', branch = ''main'', output_st = [\<lparr>om_id = 7, om_text = ''Cloning...'', om_type = ''stdout'', om_isProgress = None, om_replaceLast = None\<rparr>],
        activeCommandId = None, deployedRepos = [], isLoading = True, isConnected = True\<rparr>) =
     [\<lparr>om_id = 7, om_text = ''Cloning...'', om_type = ''stdout'', om_isProgress = None, om_replaceLast = None\<rparr>,
      \<lparr>om_id = 9, om_text = ''Error: Failed to fetch'', om_type = ''error'', om_isProgress = None, om_replaceLast = None\<rparr>] \<and>
   activeCommandId (deployRepo_settled 9 (Rejected (Some ''Failed to fetch''))
      \<lparr>gitUrl = ''https://example.org/app.git '', branch = ''main'', output_st = [\<lparr>om_id = 7, om_text = ''Cloning...'', om_type = ''stdout'', om_isProgress = None, om_replaceLast = None\<rparr>],
        activeCommandId = None, deployedRepos = [], isLoading = True, isConnected = True\<rparr>) = None"
  using
    deployRepo_outcome [of
      "\<lparr>gitUrl = ''https://example.org/app.git '', branch = ''main'', output_st = [\<lparr>om_id = 1, om_text = ''Process finished with exit code: 0'', om_type = ''success'', om_isProgress = None, om_replaceLast = None\<rparr>],
        activeCommandId = None, deployedRepos = [], isLoading = False, isConnected = True\<rparr>"
      "\<lparr>ar_success = True, ar_commandId = Some ''cmd-1'', ar_error = None, ar_repos = None\<rparr>" 9
      "\<lparr>gitUrl = ''https://example.org/app.git '', branch = ''main'', output_st = [\<lparr>om_id = 7, om_text = ''Cloning...'', om_type = ''stdout'', om_isProgress = None, om_replaceLast = None\<rparr>],
        activeCommandId = None, deployedRepos = [], isLoading = True, isConnected = True\<rparr>"
      "Some ''Failed to fetch''"]
    deployRepo_outcome [of
      "\<lparr>gitUrl = ''https://example.org/app.git '', branch = ''main'', output_st = [\<lparr>om_id = 1, om_text = ''Process finished with exit code: 0'', om_type = ''success'', om_isProgress = None, om_replaceLast = None\<rparr>],
        activeCommandId = None, deployedRepos = [], isLoading = False, isConnected = True\<rparr>"
      "\<lparr>ar_success = False, ar_commandId = None, ar_error = Some ''clone failed'', ar_repos = None\<rparr>" 9
      "\<lparr>gitUrl = ''https://example.org/app.git '', branch = ''main'', output_st = [\<lparr>om_id = 7, om_text = ''Cloning...'', om_type = ''stdout'', om_isProgress = None, om_replaceLast = None\<rparr>],
        activeCommandId = None, deployedRepos = [], isLoading = True, isConnected = True\<rparr>"
      "Some ''Failed to fetch''"]
  by (simp add: isWhiteSpace_def truthy_string_def or_else_def errorMessage_def trim_def
      button_disabled_def)

text \<open>
  The claim fails on both of its statements about a failed request. After a click on
  the enabled button with no command active and a request that fails with nothing
  delivered meanwhile, the log is not the earlier log followed by one error entry: the
  earlier entries were cleared when the request was sent. And a failed request can
  leave an active command recorded: a click, a \<open>commandFinished\<close> message delivered while
  the request waits (it resets the loading flag, so the button is enabled again), a
  second click, the first request settling with success and the second one failing
  leave \<open>cmd-1\<close> recorded.
\<close>

theorem deployRepo_failure_counterexample:
  "output_st (deployRepo_settled 9 (Rejected (Some ''Failed to fetch''))
     (fst (onClick
      \<lparr>gitUrl = ''https://example.org/app.git '', branch = ''main'', output_st = [\<lparr>om_id = 1, om_text = ''Process finished with exit code: 0'', om_type = ''success'', om_isProgress = None, om_replaceLast = None\<rparr>],
        activeCommandId = None, deployedRepos = [], isLoading = False, isConnected = True\<rparr>))) =
     [\<lparr>om_id = 9, om_text = ''Error: Failed to fetch'', om_type = ''error'', om_isProgress = None, om_replaceLast = None\<rparr>] \<and>
   output_st (deployRepo_settled 9 (Rejected (Some ''Failed to fetch''))
     (fst (onClick
      \<lparr>gitUrl = ''https://example.org/app.git '', branch = ''main'', output_st = [\<lparr>om_id = 1, om_text = ''Process finished with exit code: 0'', om_type = ''success'', om_isProgress = None, om_replaceLast = None\<rparr>],
        activeCommandId = None, deployedRepos = [], isLoading = False, isConnected = True\<rparr>))) \<noteq>
     [\<lparr>om_id = 1, om_text = ''Process finished with exit code: 0'', om_type = ''success'', om_isProgress = None, om_replaceLast = None\<rparr>,
      \<lparr>om_id = 9, om_text = ''Error: Failed to fetch'', om_type = ''error'', om_isProgress = None, om_replaceLast = None\<rparr>] \<and>
   snd (onClick (fst (on_commandFinished 2
      \<lparr>sm_commandId = ''cmd-0'', sm_output = None, sm_outputType = None,
        sm_exitCode = JSNumber 0, sm_isProgress = None, sm_replaceLast = None\<rparr>
      (fst (onClick
      \<lparr>gitUrl = ''https://example.org/app.git '', branch = ''main'', output_st = [],
        activeCommandId = None, deployedRepos = [], isLoading = False, isConnected = True\<rparr>))))) =
     [PostDeploy ''https://example.org/app.git'' ''main''] \<and>
   activeCommandId
    (deployRepo_settled 5 (Rejected (Some ''Failed to fetch''))
     (deployRepo_settled 4 (Resolved \<lparr>ar_success = True, ar_commandId = Some ''cmd-1'', ar_error = None, ar_repos = None\<rparr>)
     (fst (onClick (fst (on_commandFinished 2
      \<lparr>sm_commandId = ''cmd-0'', sm_output = None, sm_outputType = None,
        sm_exitCode = JSNumber 0, sm_isProgress = None, sm_replaceLast = None\<rparr>
      (fst (onClick
      \<lparr>gitUrl = ''https://example.org/app.git '', branch = ''main'', output_st = [],
        activeCommandId = None, deployedRepos = [], isLoading = False, isConnected = True\<rparr>)))))))) = Some ''cmd-1'' \<and>
   output_st
    (deployRepo_settled 5 (Rejected (Some ''Failed to fetch''))
     (deployRepo_settled 4 (Resolved \<lparr>ar_success = True, ar_commandId = Some ''cmd-1'', ar_error = None, ar_repos = None\<rparr>)
     (fst (onClick (fst (on_commandFinished 2
      \<lparr>sm_commandId = ''cmd-0'', sm_output = None, sm_outputType = None,
        sm_exitCode = JSNumber 0, sm_isProgress = None, sm_replaceLast = None\<rparr>
      (fst (onClick
      \<lparr>gitUrl = ''https://example.org/app.git '', branch = ''main'', output_st = [],
        activeCommandId = None, deployedRepos = [], isLoading = False, isConnected = True\<rparr>)))))))) =
     [\<lparr>om_id = 5, om_text = ''Error: Failed to fetch'', om_type = ''error'', om_isProgress = None, om_replaceLast = None\<rparr>]"
  by (simp add: onClick_def button_disabled_def deployRepo_request_def deployRepo_settled_def
      on_commandFinished_def errorMessage_def truthy_string_def trim_def isWhiteSpace_def)

text \<open>
  Claim C5. When the URL is empty or consists of white space only, \<open>deployRepo\<close> returns
  at once: no request is sent and the state, the log included, is unchanged.
\<close>

theorem blank_url_rejected:
  "\<forall>c \<in> set (gitUrl st). isWhiteSpace c \<Longrightarrow>
   deployRepo now res st = (st, []) \<and> deployRepo_request st = None"
  by (simp add: deployRepo_def deployRepo_request_def trim_Nil_iff)

theorem blank_url_rejected_witness:
  "deployRepo 9 (Resolved \<lparr>ar_success = True, ar_commandId = Some ''cmd-1'', ar_error = None, ar_repos = None\<rparr>)
      \<lparr>gitUrl = ''  '', branch = ''main'', output_st = [\<lparr>om_id = 1, om_text = ''built'', om_type = ''stdout'', om_isProgress = None, om_replaceLast = None\<rparr>],
        activeCommandId = None, deployedRepos = [], isLoading = False, isConnected = True\<rparr> =
     (\<lparr>gitUrl = ''  '', branch = ''main'', output_st = [\<lparr>om_id = 1, om_text = ''built'', om_type = ''stdout'', om_isProgress = None, om_replaceLast = None\<rparr>],
        activeCommandId = None, deployedRepos = [], isLoading = False, isConnected = True\<rparr>, []) \<and>
   deployRepo 9 (Resolved \<lparr>ar_success = True, ar_commandId = Some ''cmd-1'', ar_error = None, ar_repos = None\<rparr>)
      \<lparr>gitUrl = [], branch = ''main'', output_st = [\<lparr>om_id = 1, om_text = ''built'', om_type = ''stdout'', om_isProgress = None, om_replaceLast = None\<rparr>],
        activeCommandId = None, deployedRepos = [], isLoading = False, isConnected = True\<rparr> =
     (\<lparr>gitUrl = [], branch = ''main'', output_st = [\<lparr>om_id = 1, om_text = ''built'', om_type = ''stdout'', om_isProgress = None, om_replaceLast = None\<rparr>],
        activeCommandId = None, deployedRepos = [], isLoading = False, isConnected = True\<rparr>, [])"
  using
    blank_url_rejected [of
      "\<lparr>gitUrl = ''  '', branch = ''main'', output_st = [\<lparr>om_id = 1, om_text = ''built'', om_type = ''stdout'', om_isProgress = None, om_replaceLast = None\<rparr>],
        activeCommandId = None, deployedRepos = [], isLoading = False, isConnected = True\<rparr>" 9 "Resolved \<lparr>ar_success = True, ar_commandId = Some ''cmd-1'', ar_error = None, ar_repos = None\<rparr>"]
    blank_url_rejected [of
      "\<lparr>gitUrl = [], branch = ''main'', output_st = [\<lparr>om_id = 1, om_text = ''built'', om_type = ''stdout'', om_isProgress = None, om_replaceLast = None\<rparr>],
        activeCommandId = None, deployedRepos = [], isLoading = False, isConnected = True\<rparr>" 9 "Resolved \<lparr>ar_success = True, ar_commandId = Some ''cmd-1'', ar_error = None, ar_repos = None\<rparr>"]
  by (simp add: isWhiteSpace_def)

text \<open>
  Claim C6. \<open>stopProcess\<close> with no active command sends no request and changes no state;
  in every case it leaves the state, the active command identifier included, as it was;
  and among all the writers of the state only a \<open>commandFinished\<close> message with a numeric
  exit code takes the active command identifier from present to absent.
\<close>

theorem stop_never_clears:
  "(\<not> truthy_string (activeCommandId st) \<longrightarrow> stopProcess res st = (st, [], [])) \<and>
   fst (stopProcess res st) = st \<and>
   (truthy_string (activeCommandId s) \<and> \<not> truthy_string (activeCommandId (step a s)) \<longrightarrow>
      (case a of CommandFinished now d \<Rightarrow> typeof_number (sm_exitCode d) | _ \<Rightarrow> False))"
proof -
  have "fst (stopProcess res st) = st"
    by (simp add: stopProcess_def)
  moreover have "\<not> truthy_string (activeCommandId st) \<Longrightarrow> stopProcess res st = (st, [], [])"
    by (simp add: stopProcess_def)
  ultimately show ?thesis using step_activeCommandId [of s a] by blast
qed

theorem stop_never_clears_witness:
  "stopProcess (Resolved \<lparr>ar_success = True, ar_commandId = Some ''cmd-1'', ar_error = None, ar_repos = None\<rparr>)
      \<lparr>gitUrl = ''https://example.org/app.git'', branch = ''main'', output_st = [\<lparr>om_id = 1, om_text = ''built'', om_type = ''stdout'', om_isProgress = None, om_replaceLast = None\<rparr>],
        activeCommandId = None, deployedRepos = [], isLoading = False, isConnected = True\<rparr> =
     (\<lparr>gitUrl = ''https://example.org/app.git'', branch = ''main'', output_st = [\<lparr>om_id = 1, om_text = ''built'', om_type = ''stdout'', om_isProgress = None, om_replaceLast = None\<rparr>],
        activeCommandId = None, deployedRepos = [], isLoading = False, isConnected = True\<rparr>, [], []) \<and>
   fst (stopProcess (Resolved \<lparr>ar_success = True, ar_commandId = Some ''cmd-1'', ar_error = None, ar_repos = None\<rparr>)
      \<lparr>gitUrl = ''https://example.org/app.git'', branch = ''main'', output_st = [\<lparr>om_id = 1, om_text = ''built'', om_type = ''stdout'', om_isProgress = None, om_replaceLast = None\<rparr>],
        activeCommandId = Some ''cmd-1'', deployedRepos = [], isLoading = True, isConnected = True\<rparr>) =
     \<lparr>gitUrl = ''https://example.org/app.git'', branch = ''main'', output_st = [\<lparr>om_id = 1, om_text = ''built'', om_type = ''stdout'', om_isProgress = None, om_replaceLast = None\<rparr>],
        activeCommandId = Some ''cmd-1'', deployedRepos = [], isLoading = True, isConnected = True\<rparr> \<and>
   \<not> truthy_string (activeCommandId (step (CommandFinished 5
      \<lparr>sm_commandId = ''cmd-1'', sm_output = None, sm_outputType = None,
        sm_exitCode = JSNumber 0, sm_isProgress = None, sm_replaceLast = None\<rparr>)
      \<lparr>gitUrl = ''https://example.org/app.git'', branch = ''main'', output_st = [\<lparr>om_id = 1, om_text = ''built'', om_type = ''stdout'', om_isProgress = None, om_replaceLast = None\<rparr>],
        activeCommandId = Some ''cmd-1'', deployedRepos = [], isLoading = True, isConnected = True\<rparr>)) \<and>
   typeof_number (sm_exitCode
      \<lparr>sm_commandId = ''cmd-1'', sm_output = None, sm_outputType = None,
        sm_exitCode = JSNumber 0, sm_isProgress = None, sm_replaceLast = None\<rparr>)"
  using
    stop_never_clears [of
      "\<lparr>gitUrl = ''https://example.org/app.git'', branch = ''main'', output_st = [\<lparr>om_id = 1, om_text = ''built'', om_type = ''stdout'', om_isProgress = None, om_replaceLast = None\<rparr>],
        activeCommandId = None, deployedRepos = [], isLoading = False, isConnected = True\<rparr>" "Resolved \<lparr>ar_success = True, ar_commandId = Some ''cmd-1'', ar_error = None, ar_repos = None\<rparr>"
      "\<lparr>gitUrl = ''https://example.org/app.git'', branch = ''main'', output_st = [\<lparr>om_id = 1, om_text = ''built'', om_type = ''stdout'', om_isProgress = None, om_replaceLast = None\<rparr>],
        activeCommandId = Some ''cmd-1'', deployedRepos = [], isLoading = True, isConnected = True\<rparr>"
      "CommandFinished 5
      \<lparr>sm_commandId = ''cmd-1'', sm_output = None, sm_outputType = None,
        sm_exitCode = JSNumber 0, sm_isProgress = None, sm_replaceLast = None\<rparr>"]
    stop_never_clears [of
      "\<lparr>gitUrl = ''https://example.org/app.git'', branch = ''main'', output_st = [\<lparr>om_id = 1, om_text = ''built'', om_type = ''stdout'', om_isProgress = None, om_replaceLast = None\<rparr>],
        activeCommandId = Some ''cmd-1'', deployedRepos = [], isLoading = True, isConnected = True\<rparr>" "Resolved \<lparr>ar_success = True, ar_commandId = Some ''cmd-1'', ar_error = None, ar_repos = None\<rparr>"
      "\<lparr>gitUrl = ''https://example.org/app.git'', branch = ''main'', output_st = [\<lparr>om_id = 1, om_text = ''built'', om_type = ''stdout'', om_isProgress = None, om_replaceLast = None\<rparr>],
        activeCommandId = Some ''cmd-1'', deployedRepos = [], isLoading = True, isConnected = True\<rparr>"
      "CommandFinished 5
      \<lparr>sm_commandId = ''cmd-1'', sm_output = None, sm_outputType = None,
        sm_exitCode = JSNumber 0, sm_isProgress = None, sm_replaceLast = None\<rparr>"]
  by (simp add: truthy_string_def on_commandFinished_def)

text \<open>
  Claim C7. A \<open>commandOutput\<close> message whose text is absent or empty leaves the state
  unchanged, whatever its flags, in both revisions of the handler.
\<close>

theorem empty_output_discarded:
  "(sm_output d = None \<or> sm_output d = Some [] \<longrightarrow> on_commandOutput now d st = st) \<and>
   (sm0_output d0 = None \<or> sm0_output d0 = Some [] \<longrightarrow> on_commandOutput0 now d0 st0 = st0)"
  by (auto simp: on_commandOutput_def on_commandOutput0_def truthy_string_def)

theorem empty_output_discarded_witness:
  "on_commandOutput 2
      \<lparr>sm_commandId = ''cmd-1'', sm_output = None, sm_outputType = None,
        sm_exitCode = JSUndefined, sm_isProgress = Some True, sm_replaceLast = Some True\<rparr>
      \<lparr>gitUrl = ''https://example.org/app.git'', branch = ''main'', output_st = [\<lparr>om_id = 1, om_text = ''10%'', om_type = ''stdout'', om_isProgress = Some True, om_replaceLast = Some True\<rparr>],
        activeCommandId = Some ''cmd-1'', deployedRepos = [], isLoading = True, isConnected = True\<rparr> =
     \<lparr>gitUrl = ''https://example.org/app.git'', branch = ''main'', output_st = [\<lparr>om_id = 1, om_text = ''10%'', om_type = ''stdout'', om_isProgress = Some True, om_replaceLast = Some True\<rparr>],
        activeCommandId = Some ''cmd-1'', deployedRepos = [], isLoading = True, isConnected = True\<rparr> \<and>
   on_commandOutput0 2
      \<lparr>sm0_commandId = ''cmd-1'', sm0_output = Some [], sm0_type = None, sm0_exitCode = JSUndefined\<rparr>
      \<lparr>gitUrl = ''https://example.org/app.git'', branch = ''main'', output_st = [\<lparr>om0_id = 1, om0_text = ''built'', om0_type = ''stdout''\<rparr>],
        activeCommandId = Some ''cmd-1'', deployedRepos = [], isLoading = True, isConnected = True\<rparr> =
     \<lparr>gitUrl = ''https://example.org/app.git'', branch = ''main'', output_st = [\<lparr>om0_id = 1, om0_text = ''built'', om0_type = ''stdout''\<rparr>],
        activeCommandId = Some ''cmd-1'', deployedRepos = [], isLoading = True, isConnected = True\<rparr>"
  using empty_output_discarded [of
      "\<lparr>sm_commandId = ''cmd-1'', sm_output = None, sm_outputType = None,
        sm_exitCode = JSUndefined, sm_isProgress = Some True, sm_replaceLast = Some True\<rparr>" 2
      "\<lparr>gitUrl = ''https://example.org/app.git'', branch = ''main'', output_st = [\<lparr>om_id = 1, om_text = ''10%'', om_type = ''stdout'', om_isProgress = Some True, om_replaceLast = Some True\<rparr>],
        activeCommandId = Some ''cmd-1'', deployedRepos = [], isLoading = True, isConnected = True\<rparr>"
      "\<lparr>sm0_commandId = ''cmd-1'', sm0_output = Some [], sm0_type = None, sm0_exitCode = JSUndefined\<rparr>"
      "\<lparr>gitUrl = ''https://example.org/app.git'', branch = ''main'', output_st = [\<lparr>om0_id = 1, om0_text = ''built'', om0_type = ''stdout''\<rparr>],
        activeCommandId = Some ''cmd-1'', deployedRepos = [], isLoading = True, isConnected = True\<rparr>"]
  by simp

text \<open>
  Claim C8. The summary entry of a \<open>commandFinished\<close> message is not a progress entry for
  the reverse scan, and every such entry in the log keeps its position and its content
  through any later sequence of \<open>commandOutput\<close> messages, whatever their flags; this
  holds in particular for the entry the handler has just appended.
\<close>

theorem terminal_entries_never_replaced:
  "\<not> truthy_boolean (om_isProgress (finishedMessage t code)) \<and>
   (i < length (output_st st) \<and> output_st st ! i = finishedMessage t code
    \<longrightarrow> i < length (output_st (apply_outputs evs st)) \<and>
        output_st (apply_outputs evs st) ! i = finishedMessage t code) \<and>
   output_st (apply_outputs evs (fst (on_commandFinished t (d\<lparr>sm_exitCode := JSNumber code\<rparr>) st)))
     ! length (output_st st) = finishedMessage t code"
proof -
  have np: "\<not> truthy_boolean (om_isProgress (finishedMessage t code))"
    by (simp add: finishedMessage_def truthy_boolean_def)
  have kept: "i < length (output_st (apply_outputs evs s)) \<and>
        output_st (apply_outputs evs s) ! i = finishedMessage t code"
    if "i < length (output_st s)" "output_st s ! i = finishedMessage t code" for s i
    using apply_outputs_keeps [of i s evs] that np by simp
  let ?s1 = "fst (on_commandFinished t (d\<lparr>sm_exitCode := JSNumber code\<rparr>) st)"
  have "output_st ?s1 = output_st st @ [finishedMessage t code]"
    by (simp add: on_commandFinished_def)
  then have "length (output_st st) < length (output_st ?s1)"
    and "output_st ?s1 ! length (output_st st) = finishedMessage t code" by simp_all
  from kept [OF this] kept [of i st] np show ?thesis by blast
qed

theorem terminal_entries_never_replaced_witness:
  "output_st (apply_outputs
      [(6, \<lparr>sm_commandId = ''cmd-1'', sm_output = Some ''99%'', sm_outputType = None,
        sm_exitCode = JSUndefined, sm_isProgress = Some True, sm_replaceLast = Some True\<rparr>),
       (7, \<lparr>sm_commandId = ''cmd-1'', sm_output = Some ''late line'', sm_outputType = None,
        sm_exitCode = JSUndefined, sm_isProgress = None, sm_replaceLast = None\<rparr>)]
      \<lparr>gitUrl = ''https://example.org/app.git'', branch = ''main'', output_st = [\<lparr>om_id = 1, om_text = ''10%'', om_type = ''stdout'', om_isProgress = Some True, om_replaceLast = Some True\<rparr>,
                     finishedMessage 5 0],
        activeCommandId = None, deployedRepos = [], isLoading = False, isConnected = True\<rparr>) ! 1 = finishedMessage 5 0 \<and>
   om_text (output_st (apply_outputs
      [(6, \<lparr>sm_commandId = ''cmd-1'', sm_output = Some ''99%'', sm_outputType = None,
        sm_exitCode = JSUndefined, sm_isProgress = Some True, sm_replaceLast = Some True\<rparr>),
       (7, \<lparr>sm_commandId = ''cmd-1'', sm_output = Some ''late line'', sm_outputType = None,
        sm_exitCode = JSUndefined, sm_isProgress = None, sm_replaceLast = None\<rparr>)]
      \<lparr>gitUrl = ''https://example.org/app.git'', branch = ''main'', output_st = [\<lparr>om_id = 1, om_text = ''10%'', om_type = ''stdout'', om_isProgress = Some True, om_replaceLast = Some True\<rparr>,
                     finishedMessage 5 0],
        activeCommandId = None, deployedRepos = [], isLoading = False, isConnected = True\<rparr>) ! 0) = ''99%''"
proof -
  have replaced: "om_text (output_st (apply_outputs
      [(6, \<lparr>sm_commandId = ''cmd-1'', sm_output = Some ''99%'', sm_outputType = None,
        sm_exitCode = JSUndefined, sm_isProgress = Some True, sm_replaceLast = Some True\<rparr>),
       (7, \<lparr>sm_commandId = ''cmd-1'', sm_output = Some ''late line'', sm_outputType = None,
        sm_exitCode = JSUndefined, sm_isProgress = None, sm_replaceLast = None\<rparr>)]
      \<lparr>gitUrl = ''https://example.org/app.git'', branch = ''main'', output_st = [\<lparr>om_id = 1, om_text = ''10%'', om_type = ''stdout'', om_isProgress = Some True, om_replaceLast = Some True\<rparr>,
                     finishedMessage 5 0],
        activeCommandId = None, deployedRepos = [], isLoading = False, isConnected = True\<rparr>) ! 0) = ''99%''"
    by (simp add: apply_outputs_def on_commandOutput_def truthy_string_def truthy_boolean_def
        commandOutput_update_def findLastIndex_def findLastIndex_loop.simps finishedMessage_def
        outputMessage_def or_else_def)
  show ?thesis
    using terminal_entries_never_replaced [of 5 0 1
      "\<lparr>gitUrl = ''https://example.org/app.git'', branch = ''main'', output_st = [\<lparr>om_id = 1, om_text = ''10%'', om_type = ''stdout'', om_isProgress = Some True, om_replaceLast = Some True\<rparr>,
                     finishedMessage 5 0],
        activeCommandId = None, deployedRepos = [], isLoading = False, isConnected = True\<rparr>"
      "[(6, \<lparr>sm_commandId = ''cmd-1'', sm_output = Some ''99%'', sm_outputType = None,
        sm_exitCode = JSUndefined, sm_isProgress = Some True, sm_replaceLast = Some True\<rparr>),
       (7, \<lparr>sm_commandId = ''cmd-1'', sm_output = Some ''late line'', sm_outputType = None,
        sm_exitCode = JSUndefined, sm_isProgress = None, sm_replaceLast = None\<rparr>)]"] replaced
    by simp
qed

text \<open>
  Claim C9, as amended. The stream handlers do not read the \<open>commandId\<close> of a message:
  the effect of a \<open>commandOutput\<close> or \<open>commandFinished\<close> message is the same whatever its
  \<open>commandId\<close> is, so a message for another command is applied like one for the active
  command.
\<close>

theorem handlers_ignore_commandId:
  "on_commandOutput now (d\<lparr>sm_commandId := c\<rparr>) st = on_commandOutput now d st \<and>
   on_commandFinished now (d\<lparr>sm_commandId := c\<rparr>) st = on_commandFinished now d st"
  by (simp add: on_commandOutput_def on_commandFinished_def commandOutput_update_def outputMessage_def)

text \<open>
  The claim that a message for another command changes nothing fails: with \<open>cmd-1\<close>
  active, an output message of \<open>cmd-2\<close> is appended to the log, and a finished message of
  \<open>cmd-2\<close> appends its summary and clears the active command.
\<close>

theorem uncorrelated_event_counterexample:
  "output_st (on_commandOutput 2
      \<lparr>sm_commandId = ''cmd-2'', sm_output = Some ''stray line'', sm_outputType = None,
        sm_exitCode = JSUndefined, sm_isProgress = None, sm_replaceLast = None\<rparr>
      \<lparr>gitUrl = ''https://example.org/app.git'', branch = ''main'', output_st = [],
        activeCommandId = Some ''cmd-1'', deployedRepos = [], isLoading = True, isConnected = True\<rparr>) =
     [\<lparr>om_id = 2, om_text = ''stray line'', om_type = ''stdout'', om_isProgress = None, om_replaceLast = None\<rparr>] \<and>
   activeCommandId (fst (on_commandFinished 3
      \<lparr>sm_commandId = ''cmd-2'', sm_output = None, sm_outputType = None,
        sm_exitCode = JSNumber 0, sm_isProgress = None, sm_replaceLast = None\<rparr>
      \<lparr>gitUrl = ''https://example.org/app.git'', branch = ''main'', output_st = [],
        activeCommandId = Some ''cmd-1'', deployedRepos = [], isLoading = True, isConnected = True\<rparr>)) = None \<and>
   output_st (fst (on_commandFinished 3
      \<lparr>sm_commandId = ''cmd-2'', sm_output = None, sm_outputType = None,
        sm_exitCode = JSNumber 0, sm_isProgress = None, sm_replaceLast = None\<rparr>
      \<lparr>gitUrl = ''https://example.org/app.git'', branch = ''main'', output_st = [],
        activeCommandId = Some ''cmd-1'', deployedRepos = [], isLoading = True, isConnected = True\<rparr>)) \<noteq> []"
  by (simp add: on_commandOutput_def on_commandFinished_def truthy_string_def truthy_boolean_def
      commandOutput_update_def outputMessage_def or_else_def)

text \<open>
  Claim C10. A \<open>commandFinished\<close> message whose \<open>exitCode\<close> is absent or not a number
  changes nothing and sends no request: the log, the active command identifier and the
  loading flag are as before, and the repository list is not fetched. This holds in both
  revisions of the handler.
\<close>

theorem finished_without_number_ignored:
  "(\<not> typeof_number (sm_exitCode d) \<longrightarrow> on_commandFinished now d st = (st, [])) \<and>
   (\<not> typeof_number (sm0_exitCode d0) \<longrightarrow> on_commandFinished0 now d0 st0 = (st0, []))"
  by (cases "sm_exitCode d"; cases "sm0_exitCode d0")
     (simp_all add: on_commandFinished_def on_commandFinished0_def)

theorem finished_without_number_ignored_witness:
  "on_commandFinished 5
      \<lparr>sm_commandId = ''cmd-1'', sm_output = None, sm_outputType = None,
        sm_exitCode = JSNull, sm_isProgress = None, sm_replaceLast = None\<rparr>
      \<lparr>gitUrl = ''https://example.org/app.git'', branch = ''main'', output_st = [\<lparr>om_id = 1, om_text = ''built'', om_type = ''stdout'', om_isProgress = None, om_replaceLast = None\<rparr>],
        activeCommandId = Some ''cmd-1'', deployedRepos = [], isLoading = True, isConnected = True\<rparr> =
     (\<lparr>gitUrl = ''https://example.org/app.git'', branch = ''main'', output_st = [\<lparr>om_id = 1, om_text = ''built'', om_type = ''stdout'', om_isProgress = None, om_replaceLast = None\<rparr>],
        activeCommandId = Some ''cmd-1'', deployedRepos = [], isLoading = True, isConnected = True\<rparr>, []) \<and>
   on_commandFinished0 5
      \<lparr>sm0_commandId = ''cmd-1'', sm0_output = None, sm0_type = None, sm0_exitCode = JSString ''0''\<rparr>
      \<lparr>gitUrl = ''https://example.org/app.git'', branch = ''main'', output_st = [\<lparr>om0_id = 1, om0_text = ''built'', om0_type = ''stdout''\<rparr>],
        activeCommandId = Some ''cmd-1'', deployedRepos = [], isLoading = True, isConnected = True\<rparr> =
     (\<lparr>gitUrl = ''https://example.org/app.git'', branch = ''main'', output_st = [\<lparr>om0_id = 1, om0_text = ''built'', om0_type = ''stdout''\<rparr>],
        activeCommandId = Some ''cmd-1'', deployedRepos = [], isLoading = True, isConnected = True\<rparr>, [])"
  using finished_without_number_ignored [of
      "\<lparr>sm_commandId = ''cmd-1'', sm_output = None, sm_outputType = None,
        sm_exitCode = JSNull, sm_isProgress = None, sm_replaceLast = None\<rparr>" 5
      "\<lparr>gitUrl = ''https://example.org/app.git'', branch = ''main'', output_st = [\<lparr>om_id = 1, om_text = ''built'', om_type = ''stdout'', om_isProgress = None, om_replaceLast = None\<rparr>],
        activeCommandId = Some ''cmd-1'', deployedRepos = [], isLoading = True, isConnected = True\<rparr>"
      "\<lparr>sm0_commandId = ''cmd-1'', sm0_output = None, sm0_type = None, sm0_exitCode = JSString ''0''\<rparr>"
      "\<lparr>gitUrl = ''https://example.org/app.git'', branch = ''main'', output_st = [\<lparr>om0_id = 1, om0_text = ''built'', om0_type = ''stdout''\<rparr>],
        activeCommandId = Some ''cmd-1'', deployedRepos = [], isLoading = True, isConnected = True\<rparr>"]
  by simp

end
